theory Spec2Isabelle
  imports Complex_Main
begin

text \<open>
  The geometry, view transform and picking of the map viewer's \<^verbatim>\<open>MapRenderer\<close>
  (\<^verbatim>\<open>src/render.js\<close>), embedded as functions on an explicit renderer state, and the
  properties of bounds, fit, zoom, pick and highlight proved about them.
\<close>

section \<open>JavaScript numbers\<close>

text \<open>
  Every number in \<^verbatim>\<open>render.js\<close> is a JavaScript double. The model keeps the three
  special values the code relies on (\<^verbatim>\<open>Infinity\<close> as the empty-bounds sentinel
  and as the initial pick distance, \<^verbatim>\<open>-Infinity\<close>, and \<^verbatim>\<open>NaN\<close>, which
  division of zero by zero and \<^verbatim>\<open>0 * Infinity\<close> produce) and takes every finite
  double as the real number it denotes. Rounding and overflow of finite results are
  not modelled: a finite operation returns the exact real result. There is one zero,
  read as \<^verbatim>\<open>+0\<close> where its sign matters (a positive number divided by zero is
  \<^verbatim>\<open>Infinity\<close>).
\<close>

datatype jsnum = Num real | PosInf | NegInf | NaN

instantiation jsnum :: "{plus, minus, uminus, times, inverse}"
begin

fun plus_jsnum :: "jsnum \<Rightarrow> jsnum \<Rightarrow> jsnum" where
  "plus_jsnum (Num a) (Num b) = Num (a + b)"
| "plus_jsnum NaN _ = NaN"
| "plus_jsnum _ NaN = NaN"
| "plus_jsnum PosInf NegInf = NaN"
| "plus_jsnum NegInf PosInf = NaN"
| "plus_jsnum PosInf _ = PosInf"
| "plus_jsnum _ PosInf = PosInf"
| "plus_jsnum NegInf _ = NegInf"
| "plus_jsnum _ NegInf = NegInf"

fun uminus_jsnum :: "jsnum \<Rightarrow> jsnum" where
  "uminus_jsnum (Num a) = Num (- a)"
| "uminus_jsnum PosInf = NegInf"
| "uminus_jsnum NegInf = PosInf"
| "uminus_jsnum NaN = NaN"

definition minus_jsnum :: "jsnum \<Rightarrow> jsnum \<Rightarrow> jsnum" where
  "minus_jsnum a b = a + (- b)"

fun times_jsnum :: "jsnum \<Rightarrow> jsnum \<Rightarrow> jsnum" where
  "times_jsnum (Num a) (Num b) = Num (a * b)"
| "times_jsnum NaN _ = NaN"
| "times_jsnum _ NaN = NaN"
| "times_jsnum PosInf (Num b) = (if b = 0 then NaN else if 0 < b then PosInf else NegInf)"
| "times_jsnum NegInf (Num b) = (if b = 0 then NaN else if 0 < b then NegInf else PosInf)"
| "times_jsnum (Num a) PosInf = (if a = 0 then NaN else if 0 < a then PosInf else NegInf)"
| "times_jsnum (Num a) NegInf = (if a = 0 then NaN else if 0 < a then NegInf else PosInf)"
| "times_jsnum PosInf PosInf = PosInf"
| "times_jsnum PosInf NegInf = NegInf"
| "times_jsnum NegInf PosInf = NegInf"
| "times_jsnum NegInf NegInf = PosInf"

fun divide_jsnum :: "jsnum \<Rightarrow> jsnum \<Rightarrow> jsnum" where
  "divide_jsnum (Num a) (Num b) =
     (if b = 0 then (if a = 0 then NaN else if 0 < a then PosInf else NegInf)
      else Num (a / b))"
| "divide_jsnum NaN _ = NaN"
| "divide_jsnum _ NaN = NaN"
| "divide_jsnum (Num a) PosInf = Num 0"
| "divide_jsnum (Num a) NegInf = Num 0"
| "divide_jsnum PosInf (Num b) = (if 0 \<le> b then PosInf else NegInf)"
| "divide_jsnum NegInf (Num b) = (if 0 \<le> b then NegInf else PosInf)"
| "divide_jsnum PosInf _ = NaN"
| "divide_jsnum NegInf _ = NaN"

definition inverse_jsnum :: "jsnum \<Rightarrow> jsnum" where
  "inverse_jsnum a = divide (Num 1) a"

instance ..

end

text \<open>The comparisons \<^verbatim>\<open><\<close>, \<^verbatim>\<open>>\<close> and \<^verbatim>\<open>===\<close>: all false when an operand is NaN.\<close>

fun js_lt :: "jsnum \<Rightarrow> jsnum \<Rightarrow> bool" where
  "js_lt (Num a) (Num b) = (a < b)"
| "js_lt NaN _ = False"
| "js_lt _ NaN = False"
| "js_lt NegInf NegInf = False"
| "js_lt NegInf _ = True"
| "js_lt PosInf _ = False"
| "js_lt _ PosInf = True"
| "js_lt _ NegInf = False"

definition js_gt :: "jsnum \<Rightarrow> jsnum \<Rightarrow> bool" where
  "js_gt a b = js_lt b a"

definition js_seq :: "jsnum \<Rightarrow> jsnum \<Rightarrow> bool" where
  "js_seq a b = (a \<noteq> NaN \<and> a = b)"

definition js_le :: "jsnum \<Rightarrow> jsnum \<Rightarrow> bool" where
  "js_le a b = (js_lt a b \<or> js_seq a b)"

text \<open>\<^verbatim>\<open>Math.min\<close>, \<^verbatim>\<open>Math.max\<close>, \<^verbatim>\<open>Math.abs\<close>, \<^verbatim>\<open>Math.sqrt\<close> and
  \<^verbatim>\<open>Math.pow(v, 2)\<close>.\<close>

definition Math_min :: "jsnum \<Rightarrow> jsnum \<Rightarrow> jsnum" where
  "Math_min a b = (if a = NaN \<or> b = NaN then NaN else if js_lt b a then b else a)"

definition Math_max :: "jsnum \<Rightarrow> jsnum \<Rightarrow> jsnum" where
  "Math_max a b = (if a = NaN \<or> b = NaN then NaN else if js_lt a b then b else a)"

fun Math_abs :: "jsnum \<Rightarrow> jsnum" where
  "Math_abs (Num a) = Num \<bar>a\<bar>"
| "Math_abs PosInf = PosInf"
| "Math_abs NegInf = PosInf"
| "Math_abs NaN = NaN"

fun Math_sqrt :: "jsnum \<Rightarrow> jsnum" where
  "Math_sqrt (Num a) = (if a < 0 then NaN else Num (sqrt a))"
| "Math_sqrt PosInf = PosInf"
| "Math_sqrt NegInf = NaN"
| "Math_sqrt NaN = NaN"

fun Math_pow2 :: "jsnum \<Rightarrow> jsnum" where
  "Math_pow2 (Num a) = Num (a * a)"
| "Math_pow2 PosInf = PosInf"
| "Math_pow2 NegInf = PosInf"
| "Math_pow2 NaN = NaN"

fun isFinite :: "jsnum \<Rightarrow> bool" where
  "isFinite (Num a) = True"
| "isFinite _ = False"


section \<open>The map document and the renderer state\<close>

text \<open>
  The wire format read by \<^verbatim>\<open>loadData\<close>:
  \<^verbatim>\<open>{offset:{x,y,z}, roadLine:[{RoadId?, BoundaryPoints:[{x,y,LineColor?,LineType?}]}]}\<close>.
  An \<^verbatim>\<open>{x, y}\<close> object is the record \<open>xy\<close> (fields \<open>xc\<close>, \<open>yc\<close>; \<^verbatim>\<open>z\<close>
  is never read). Optional members are \<open>option\<close>s: \<open>None\<close> is \<^verbatim>\<open>undefined\<close>.
  \<^verbatim>\<open>BoundaryPoints\<close> is taken to be an array in every road, and the argument of
  \<^verbatim>\<open>loadData\<close> to be an object: \<^verbatim>\<open>calculateBounds\<close> calls
  \<^verbatim>\<open>road.BoundaryPoints.forEach\<close> unguarded, so a document without them never gets
  through a load.
\<close>

record xy =
  xc :: jsnum
  yc :: jsnum

record bpoint = xy +
  LineColor :: "string option"
  LineType :: "string option"

record road =
  RoadId :: "string option"
  BoundaryPoints :: "bpoint list"

record mapdoc =
  doc_offset :: "xy option"
  roadLine :: "road list option"

record canvas_el =
  clientWidth :: jsnum
  clientHeight :: jsnum

text \<open>
  The fields of \<^verbatim>\<open>MapRenderer\<close> that its methods read, as the constructor sets them
  (\<^verbatim>\<open>isDragging\<close>, \<^verbatim>\<open>lastMouseX\<close> and \<^verbatim>\<open>lastMouseY\<close> are never read and are
  left out). Of the canvas only \<^verbatim>\<open>clientWidth\<close> and \<^verbatim>\<open>clientHeight\<close> are kept.
  \<^verbatim>\<open>ctx\<close> is not a field of the model: \<^verbatim>\<open>draw()\<close> writes to the canvas context
  only and changes no field of the renderer, so a method is the function from the
  renderer it finds to the renderer it leaves, and the drawing of one road is the list
  of context operations of \<open>drawRoadLine\<close>.
\<close>

record renderer =
  canvas :: canvas_el
  data :: "mapdoc option"
  offset :: xy
  minX :: jsnum
  maxX :: jsnum
  minY :: jsnum
  maxY :: jsnum
  scale :: jsnum
  translateX :: jsnum
  translateY :: jsnum
  showGrid :: bool
  selectedRoad :: "road option"

definition new_MapRenderer :: "canvas_el \<Rightarrow> renderer" where
  "new_MapRenderer cv =
     \<lparr>canvas = cv, data = None, offset = \<lparr>xc = Num 0, yc = Num 0\<rparr>,
      minX = PosInf, maxX = NegInf, minY = PosInf, maxY = NegInf,
      scale = Num 1, translateX = Num 0, translateY = Num 0,
      showGrid = False, selectedRoad = None\<rparr>"

section \<open>Bounds\<close>

definition REASONABLE_LIMIT :: jsnum where
  "REASONABLE_LIMIT = Num (10 ^ 12)"

text \<open>The body of the inner \<^verbatim>\<open>forEach\<close> of \<^verbatim>\<open>calculateBounds\<close>, for one point.\<close>

definition boundsPoint :: "bpoint \<Rightarrow> renderer \<Rightarrow> renderer" where
  "boundsPoint point s =
     (let x = xc point - xc (offset s);
          y = yc point - yc (offset s)
      in if js_gt (Math_abs x) REASONABLE_LIMIT \<or> js_gt (Math_abs y) REASONABLE_LIMIT
         then s
         else s\<lparr>minX := Math_min (minX s) x, maxX := Math_max (maxX s) x,
                minY := Math_min (minY s) y, maxY := Math_max (maxY s) y\<rparr>)"

definition boundsRoad :: "road \<Rightarrow> renderer \<Rightarrow> renderer" where
  "boundsRoad rd s = fold boundsPoint (BoundaryPoints rd) s"

definition calculateBounds :: "renderer \<Rightarrow> renderer" where
  "calculateBounds s =
     (let s1 = s\<lparr>minX := PosInf, maxX := NegInf, minY := PosInf, maxY := NegInf\<rparr>
      in case data s1 of
           None \<Rightarrow> s1
         | Some d \<Rightarrow>
             (case roadLine d of
                None \<Rightarrow> s1
              | Some roads \<Rightarrow> fold boundsRoad roads s1))"

section \<open>The view transform\<close>

definition fitBounds :: "renderer \<Rightarrow> renderer" where
  "fitBounds s =
     (if js_seq (minX s) PosInf then s
      else
        let mapWidth = maxX s - minX s;
            mapHeight = maxY s - minY s;
            canvasWidth = clientWidth (canvas s);
            canvasHeight = clientHeight (canvas s);
            padding = Num (1 / 10);
            scaleX = (canvasWidth * (Num 1 - padding)) / mapWidth;
            scaleY = (canvasHeight * (Num 1 - padding)) / mapHeight;
            s1 = s\<lparr>scale := Math_min scaleX scaleY\<rparr>;
            scaledMapWidth = mapWidth * scale s1;
            scaledMapHeight = mapHeight * scale s1;
            s2 = s1\<lparr>translateX :=
                        (canvasWidth - scaledMapWidth) / Num 2 - minX s1 * scale s1\<rparr>
        in s2\<lparr>translateY :=
                 (canvasHeight - scaledMapHeight) / Num 2 - minY s2 * scale s2\<rparr>)"

definition worldToCanvas :: "renderer \<Rightarrow> jsnum \<Rightarrow> jsnum \<Rightarrow> xy" where
  "worldToCanvas s x y =
     (let transformedX = (x - xc (offset s)) * scale s + translateX s;
          transformedY =
            clientHeight (canvas s) - ((y - yc (offset s)) * scale s + translateY s)
      in \<lparr>xc = transformedX, yc = transformedY\<rparr>)"

definition canvasToWorld :: "renderer \<Rightarrow> jsnum \<Rightarrow> jsnum \<Rightarrow> xy" where
  "canvasToWorld s canvasX canvasY =
     (let x = (canvasX - translateX s) / scale s;
          y = (clientHeight (canvas s) - canvasY - translateY s) / scale s
      in \<lparr>xc = x, yc = y\<rparr>)"

text \<open>
  The first two lines of \<^verbatim>\<open>zoom\<close>: the world point under the zoom centre, in raw
  document coordinates (the offset is added).
\<close>

definition zoomWorld :: "renderer \<Rightarrow> jsnum \<Rightarrow> jsnum \<Rightarrow> xy" where
  "zoomWorld s centerX centerY =
     \<lparr>xc = (centerX - translateX s) / scale s + xc (offset s),
      yc = (clientHeight (canvas s) - centerY - translateY s) / scale s + yc (offset s)\<rparr>"

definition zoom :: "renderer \<Rightarrow> jsnum \<Rightarrow> jsnum \<Rightarrow> jsnum \<Rightarrow> renderer" where
  "zoom s factor centerX centerY =
     (let worldX = xc (zoomWorld s centerX centerY);
          worldY = yc (zoomWorld s centerX centerY);
          s1 = s\<lparr>scale := scale s * factor\<rparr>;
          s2 = s1\<lparr>translateX := centerX - (worldX - xc (offset s1)) * scale s1\<rparr>
      in s2\<lparr>translateY :=
               clientHeight (canvas s2) - centerY - (worldY - yc (offset s2)) * scale s2\<rparr>)"

definition pan :: "renderer \<Rightarrow> jsnum \<Rightarrow> jsnum \<Rightarrow> renderer" where
  "pan s dx dy = s\<lparr>translateX := translateX s + dx, translateY := translateY s - dy\<rparr>"

definition resetView :: "renderer \<Rightarrow> renderer" where
  "resetView s = fitBounds s"

definition toggleGrid :: "renderer \<Rightarrow> renderer" where
  "toggleGrid s = s\<lparr>showGrid := \<not> showGrid s\<rparr>"

definition loadData :: "renderer \<Rightarrow> mapdoc \<Rightarrow> renderer" where
  "loadData s jsonData =
     (let s1 = s\<lparr>data := Some jsonData\<rparr>;
          s2 = s1\<lparr>offset := (case doc_offset jsonData of
                                 Some off \<Rightarrow> off
                               | None \<Rightarrow> \<lparr>xc = Num 0, yc = Num 0\<rparr>)\<rparr>
      in fitBounds (calculateBounds s2))"


section \<open>Picking\<close>

fun lengthLoop :: "bpoint list \<Rightarrow> jsnum \<Rightarrow> jsnum" where
  "lengthLoop (p1 # p2 # rest) totalLength =
     (let dx = xc p2 - xc p1;
          dy = yc p2 - yc p1
      in lengthLoop (p2 # rest) (totalLength + Math_sqrt (dx * dx + dy * dy)))"
| "lengthLoop _ totalLength = totalLength"

definition calculateRoadLength :: "road \<Rightarrow> jsnum" where
  "calculateRoadLength rd = lengthLoop (BoundaryPoints rd) (Num 0)"

text \<open>
  The body of the segment loop of \<^verbatim>\<open>selectRoadAt\<close> for the pair
  \<^verbatim>\<open>BoundaryPoints[i]\<close>, \<^verbatim>\<open>BoundaryPoints[i + 1]\<close>, on the loop's two variables
  \<^verbatim>\<open>minDistance\<close> and \<^verbatim>\<open>closestRoad\<close>.
\<close>

definition segmentBody ::
  "xy \<Rightarrow> xy \<Rightarrow> road \<Rightarrow> bpoint \<Rightarrow> bpoint \<Rightarrow> jsnum \<times> road option \<Rightarrow> jsnum \<times> road option" where
  "segmentBody clickWorldPos off rd p1_raw p2_raw acc =
     (let p1 = \<lparr>xc = xc p1_raw - xc off, yc = yc p1_raw - yc off\<rparr>;
          p2 = \<lparr>xc = xc p2_raw - xc off, yc = yc p2_raw - yc off\<rparr>;
          dx = xc p2 - xc p1;
          dy = yc p2 - yc p1;
          lenSq = dx * dx + dy * dy
      in if js_seq lenSq (Num 0) then acc
         else
           let t = ((xc clickWorldPos - xc p1) * dx + (yc clickWorldPos - yc p1) * dy) / lenSq;
               tClamped = Math_max (Num 0) (Math_min (Num 1) t);
               closestPointX = xc p1 + tClamped * dx;
               closestPointY = yc p1 + tClamped * dy;
               distSq = Math_pow2 (xc clickWorldPos - closestPointX)
                        + Math_pow2 (yc clickWorldPos - closestPointY)
           in if js_lt distSq (fst acc) then (distSq, Some rd) else acc)"

fun segmentLoop ::
  "xy \<Rightarrow> xy \<Rightarrow> road \<Rightarrow> bpoint list \<Rightarrow> jsnum \<times> road option \<Rightarrow> jsnum \<times> road option" where
  "segmentLoop clickWorldPos off rd (p1_raw # p2_raw # rest) acc =
     segmentLoop clickWorldPos off rd (p2_raw # rest)
       (segmentBody clickWorldPos off rd p1_raw p2_raw acc)"
| "segmentLoop clickWorldPos off rd _ acc = acc"

datatype js_error = TypeError

record pick_info =
  info_id :: string
  info_length :: jsnum

text \<open>The string literal returned for a road without a usable id, as its UTF-8 bytes.\<close>

definition unnamed :: string where
  "unnamed = [CHR 0xE6, CHR 0x9C, CHR 0xAA, CHR 0xE5, CHR 0x91, CHR 0xBD,
              CHR 0xE5, CHR 0x90, CHR 0x8D]"

text \<open>
  \<^verbatim>\<open>selectRoadAt\<close> returns the renderer it leaves and the value it returns
  (\<open>None\<close> is \<^verbatim>\<open>null\<close>). Reading \<^verbatim>\<open>this.selectedRoad.RoadId\<close> on a null
  \<^verbatim>\<open>closestRoad\<close> would throw; that branch is \<open>Inl TypeError\<close>.
\<close>

definition selectRoadAt ::
  "renderer \<Rightarrow> jsnum \<Rightarrow> jsnum \<Rightarrow> js_error + renderer \<times> pick_info option" where
  "selectRoadAt s canvasX canvasY =
     (let clickWorldPos = canvasToWorld s canvasX canvasY;
          clickThreshold = Num 5 / scale s
      in case data s of
           None \<Rightarrow> Inr (s, None)
         | Some d \<Rightarrow>
             (case roadLine d of
                None \<Rightarrow> Inr (s, None)
              | Some roads \<Rightarrow>
                  (let found = fold (\<lambda>rd acc. segmentLoop clickWorldPos (offset s) rd
                                                 (BoundaryPoints rd) acc)
                                    roads (PosInf, None);
                       minDistance = fst found;
                       closestRoad = snd found
                   in if js_lt minDistance (clickThreshold * clickThreshold)
                      then (case closestRoad of
                              None \<Rightarrow> Inl TypeError
                            | Some sel \<Rightarrow>
                                Inr (s\<lparr>selectedRoad := Some sel\<rparr>,
                                     Some \<lparr>info_id = (case RoadId sel of
                                                         None \<Rightarrow> unnamed
                                                       | Some i \<Rightarrow> if i = [] then unnamed else i),
                                           info_length = calculateRoadLength sel\<rparr>))
                      else Inr (s\<lparr>selectedRoad := None\<rparr>, None))))"

section \<open>Drawing one road\<close>

text \<open>
  The calls \<^verbatim>\<open>drawRoadLine\<close> makes on the canvas context, in order. The call of
  \<^verbatim>\<open>drawArrow\<close> is kept as one operation with its five arguments.
\<close>

datatype ctx_op =
    BeginPath
  | SetLineWidth nat
  | SetStrokeStyle string
  | SetLineDash "nat list"
  | MoveTo jsnum jsnum
  | LineTo jsnum jsnum
  | Stroke
  | DrawArrow jsnum jsnum jsnum jsnum string
  | SetFillStyle string
  | SetFont string
  | SetTextAlign string
  | SetTextBaseline string
  | FillText string jsnum jsnum

definition isSelected :: "renderer \<Rightarrow> road \<Rightarrow> bool" where
  "isSelected s rd =
     (case selectedRoad s of None \<Rightarrow> False | Some sel \<Rightarrow> RoadId sel = RoadId rd)"

definition strokeStyleOf :: "renderer \<Rightarrow> road \<Rightarrow> bpoint \<Rightarrow> string" where
  "strokeStyleOf s rd firstPoint =
     (if isSelected s rd then ''lime''
      else if LineColor firstPoint = Some ''white'' then ''white''
      else if LineColor firstPoint = Some ''standard'' then ''gray''
      else ''white'')"

definition styleOps :: "renderer \<Rightarrow> road \<Rightarrow> bpoint \<Rightarrow> ctx_op list" where
  "styleOps s rd firstPoint =
     (if isSelected s rd
      then [SetLineWidth 4, SetStrokeStyle ''lime'', SetLineDash []]
      else [SetLineWidth 2, SetStrokeStyle (strokeStyleOf s rd firstPoint),
            (if LineType firstPoint = Some ''broken'' then SetLineDash [5, 5]
             else SetLineDash [])])"

definition lineToOp :: "renderer \<Rightarrow> bpoint \<Rightarrow> ctx_op" where
  "lineToOp s point = (let e = worldToCanvas s (xc point) (yc point) in LineTo (xc e) (yc e))"

definition labelOps :: "renderer \<Rightarrow> road \<Rightarrow> ctx_op list" where
  "labelOps s rd =
     (case RoadId rd of
        None \<Rightarrow> []
      | Some i \<Rightarrow>
          if i = [] then []
          else
            let midIndex = length (BoundaryPoints rd) div 2;
                midPoint = BoundaryPoints rd ! midIndex;
                canvasMid = worldToCanvas s (xc midPoint) (yc midPoint)
            in [SetFillStyle ''cyan'', SetFont ''10px Arial'', SetTextAlign ''center'',
                SetTextBaseline ''middle'',
                FillText i (xc canvasMid) (yc canvasMid - Num 10)])"

definition drawRoadLine :: "renderer \<Rightarrow> road \<Rightarrow> ctx_op list" where
  "drawRoadLine s rd =
     (case BoundaryPoints rd of
        firstPoint # secondPoint # rest \<Rightarrow>
          (let start = worldToCanvas s (xc firstPoint) (yc firstPoint);
               p1 = worldToCanvas s (xc firstPoint) (yc firstPoint);
               p2 = worldToCanvas s (xc secondPoint) (yc secondPoint)
           in [BeginPath] @ styleOps s rd firstPoint
              @ [MoveTo (xc start) (yc start)]
              @ map (lineToOp s) (secondPoint # rest)
              @ [Stroke,
                 DrawArrow (xc p1) (yc p1) (xc p2) (yc p2) (strokeStyleOf s rd firstPoint)]
              @ labelOps s rd)
      | _ \<Rightarrow> [])"

section \<open>Vocabulary of the properties\<close>

text \<open>
  A view is finite when its scale, its translation, the canvas height and the offset
  are all finite numbers.
\<close>

definition finiteView :: "renderer \<Rightarrow> bool" where
  "finiteView s =
     (isFinite (scale s) \<and> isFinite (translateX s) \<and> isFinite (translateY s) \<and>
      isFinite (clientHeight (canvas s)) \<and>
      isFinite (xc (offset s)) \<and> isFinite (yc (offset s)))"

text \<open>The test of \<^verbatim>\<open>calculateBounds\<close> under which a point is skipped.\<close>

definition outlierPoint :: "xy \<Rightarrow> bpoint \<Rightarrow> bool" where
  "outlierPoint off point =
     (js_gt (Math_abs (xc point - xc off)) REASONABLE_LIMIT \<or>
      js_gt (Math_abs (yc point - yc off)) REASONABLE_LIMIT)"

definition boundsOf :: "renderer \<Rightarrow> jsnum \<times> jsnum \<times> jsnum \<times> jsnum" where
  "boundsOf s = (minX s, maxX s, minY s, maxY s)"

text \<open>A road list with the skipped points taken out of every road.\<close>

definition inThresholdOnly :: "xy \<Rightarrow> road list \<Rightarrow> road list" where
  "inThresholdOnly off roads =
     map (\<lambda>rd. rd\<lparr>BoundaryPoints := filter (\<lambda>p. \<not> outlierPoint off p) (BoundaryPoints rd)\<rparr>)
         roads"

text \<open>The loaded document has no point that \<^verbatim>\<open>calculateBounds\<close> would keep.\<close>

definition noValidGeometry :: "renderer \<Rightarrow> bool" where
  "noValidGeometry s =
     (case data s of
        None \<Rightarrow> True
      | Some d \<Rightarrow>
          (case roadLine d of
             None \<Rightarrow> True
           | Some roads \<Rightarrow>
               list_all (\<lambda>rd. list_all (outlierPoint (offset s)) (BoundaryPoints rd)) roads))"


section \<open>Concrete documents\<close>

definition pt :: "real \<Rightarrow> real \<Rightarrow> bpoint" where
  "pt a b = \<lparr>xc = Num a, yc = Num b, LineColor = None, LineType = None\<rparr>"

definition exCanvas :: canvas_el where
  "exCanvas = \<lparr>clientWidth = Num 800, clientHeight = Num 600\<rparr>"

text \<open>The scenario of the specification: offset (100, 100) and one road R1 of length 10.\<close>

definition exR1 :: road where
  "exR1 = \<lparr>RoadId = Some ''R1'', BoundaryPoints = [pt 100 100, pt 110 100]\<rparr>"

definition exDoc1 :: mapdoc where
  "exDoc1 = \<lparr>doc_offset = Some \<lparr>xc = Num 100, yc = Num 100\<rparr>, roadLine = Some [exR1]\<rparr>"

definition exDocEmpty :: mapdoc where
  "exDocEmpty = \<lparr>doc_offset = None, roadLine = Some []\<rparr>"

text \<open>A renderer with offset (100, 100), scale 1 and no translation.\<close>

definition exOffsetView :: renderer where
  "exOffsetView = (new_MapRenderer exCanvas)\<lparr>offset := \<lparr>xc = Num 100, yc = Num 100\<rparr>\<rparr>"

text \<open>The same renderer with the bounds of a 10 by 5 map.\<close>

definition exBoundsView :: renderer where
  "exBoundsView = exOffsetView\<lparr>minX := Num 0, maxX := Num 10, minY := Num 0, maxY := Num 5\<rparr>"

text \<open>The screen points of the path operations of an operation list, in order.\<close>

fun pathPoints :: "ctx_op list \<Rightarrow> xy list" where
  "pathPoints [] = []"
| "pathPoints (MoveTo a b # ops) = \<lparr>xc = a, yc = b\<rparr> # pathPoints ops"
| "pathPoints (LineTo a b # ops) = \<lparr>xc = a, yc = b\<rparr> # pathPoints ops"
| "pathPoints (_ # ops) = pathPoints ops"

text \<open>A map that is a single point, a map with one far-away point, and two roads without id.\<close>

definition exDocPoint :: mapdoc where
  "exDocPoint =
     \<lparr>doc_offset = None,
      roadLine = Some [\<lparr>RoadId = Some ''P'', BoundaryPoints = [pt 5 7, pt 5 7]\<rparr>]\<rparr>"

definition exVerticalView :: renderer where
  "exVerticalView = exOffsetView\<lparr>minX := Num 0, maxX := Num 0, minY := Num 0, maxY := Num 5\<rparr>"

definition exFarRoad :: road where
  "exFarRoad = \<lparr>RoadId = Some ''F'', BoundaryPoints = [pt 0 0, pt 10 5, pt (10 ^ 13) 0]\<rparr>"

definition exDocFar :: mapdoc where
  "exDocFar = \<lparr>doc_offset = None, roadLine = Some [exFarRoad]\<rparr>"

definition exDocOnlyFar :: mapdoc where
  "exDocOnlyFar =
     \<lparr>doc_offset = None,
      roadLine = Some [\<lparr>RoadId = None, BoundaryPoints = [pt (10 ^ 13) 0, pt 0 (- (10 ^ 13))]\<rparr>,
                       \<lparr>RoadId = None, BoundaryPoints = []\<rparr>]\<rparr>"




definition exFarView :: renderer where
  "exFarView = (new_MapRenderer exCanvas)\<lparr>data := Some exDocFar\<rparr>"

section \<open>Lengths and distances on finite coordinates\<close>

fun numOf :: "jsnum \<Rightarrow> real" where
  "numOf (Num a) = a"
| "numOf _ = 0"

definition finitePoint :: "bpoint \<Rightarrow> bool" where
  "finitePoint p = (isFinite (xc p) \<and> isFinite (yc p))"


text \<open>The Euclidean distance of two raw points, and the sum of it over consecutive points.\<close>

definition euclid :: "bpoint \<Rightarrow> bpoint \<Rightarrow> real" where
  "euclid p q = sqrt ((numOf (xc q) - numOf (xc p))\<^sup>2 + (numOf (yc q) - numOf (yc p))\<^sup>2)"

definition pathLength :: "bpoint list \<Rightarrow> real" where
  "pathLength ps = (\<Sum>i < length ps - 1. euclid (ps ! i) (ps ! Suc i))"



text \<open>The consecutive point pairs of a road, first to last.\<close>

definition segments :: "bpoint list \<Rightarrow> (bpoint \<times> bpoint) list" where
  "segments ps = zip ps (tl ps)"



text \<open>The first entry, in list order, whose distance is the minimum of all of them.\<close>

definition firstNearest :: "(real \<times> road) list \<Rightarrow> (real \<times> road) option" where
  "firstNearest cands =
     (if cands = [] then None
      else find (\<lambda>e. fst e = Min (fst ` set cands)) cands)"



text \<open>
  The renderer after a fresh load of the scenario document; a map with a road whose two
  points coincide at (5, 0); and a map of two roads at the same distance, 1/20, on either
  side of the world point (5, 0).
\<close>

definition exLoaded :: renderer where
  "exLoaded = loadData (new_MapRenderer exCanvas) exDoc1"










section \<open>Arithmetic on finite numbers\<close>

lemma minus_Num [simp]: "Num a - Num b = Num (a - b)"
  by (simp add: minus_jsnum_def)

lemma Math_min_Num [simp]: "Math_min (Num a) (Num b) = Num (min a b)"
  by (simp add: Math_min_def min_def)

lemma Math_max_Num [simp]: "Math_max (Num a) (Num b) = Num (max a b)"
  by (simp add: Math_max_def max_def)

lemma js_gt_Num [simp]: "js_gt (Num a) (Num b) = (b < a)"
  by (simp add: js_gt_def)

lemma js_seq_Num [simp]: "js_seq (Num a) (Num b) = (a = b)"
  by (simp add: js_seq_def)

lemma js_le_Num [simp]: "js_le (Num a) (Num b) = (a \<le> b)"
  by (auto simp: js_le_def)

lemma js_seq_PosInf [simp]: "js_seq a PosInf = (a = PosInf)"
  by (auto simp: js_seq_def)

lemma js_lt_PosInf_left [simp]: "js_lt PosInf a = False"
  by (cases a) simp_all

lemma isFinite_iff: "isFinite a = (\<exists>r. a = Num r)"
  by (cases a) simp_all

section \<open>What the bounds scan and the fit leave alone\<close>

lemma selectedRoad_boundsPoint [simp]: "selectedRoad (boundsPoint p s) = selectedRoad s"
  by (simp add: boundsPoint_def Let_def)

lemma selectedRoad_fold_boundsPoint [simp]:
  "selectedRoad (fold boundsPoint ps s) = selectedRoad s"
  by (induction ps arbitrary: s) simp_all

lemma selectedRoad_fold_boundsRoad [simp]:
  "selectedRoad (fold boundsRoad rs s) = selectedRoad s"
  by (induction rs arbitrary: s) (simp_all add: boundsRoad_def)

lemma selectedRoad_calculateBounds [simp]:
  "selectedRoad (calculateBounds s) = selectedRoad s"
  by (simp add: calculateBounds_def Let_def split: option.splits)

lemma selectedRoad_fitBounds [simp]: "selectedRoad (fitBounds s) = selectedRoad s"
  by (simp add: fitBounds_def Let_def)

section \<open>Finite views\<close>

lemma finiteViewE:
  assumes "finiteView s"
  obtains k tx ty h ox oy where
    "scale s = Num k" "translateX s = Num tx" "translateY s = Num ty"
    "clientHeight (canvas s) = Num h" "xc (offset s) = Num ox" "yc (offset s) = Num oy"
  using assms unfolding finiteView_def isFinite_iff by blast

lemma finiteView_exOffsetView: "finiteView exOffsetView"
  by (simp add: finiteView_def exOffsetView_def new_MapRenderer_def exCanvas_def)

text \<open>The world point that \<^verbatim>\<open>zoom\<close> computes is \<^verbatim>\<open>canvasToWorld\<close>'s with the offset added.\<close>

lemma zoomWorld_canvasToWorld:
  "zoomWorld s cx cy = \<lparr>xc = xc (canvasToWorld s cx cy) + xc (offset s),
                         yc = yc (canvasToWorld s cx cy) + yc (offset s)\<rparr>"
  by (simp add: zoomWorld_def canvasToWorld_def Let_def)

section \<open>The fit on a box that has width and height\<close>

lemma fitBounds_finite:
  assumes b: "minX s = Num x0" "maxX s = Num x1" "minY s = Num y0" "maxY s = Num y1"
    and c: "clientWidth (canvas s) = Num w" "clientHeight (canvas s) = Num h"
    and nd: "x0 < x1" "y0 < y1"
  shows "scale (fitBounds s) = Num (min (w * (9 / 10) / (x1 - x0)) (h * (9 / 10) / (y1 - y0)))"
    and "translateX (fitBounds s)
           = Num ((w - (x1 - x0) * min (w * (9 / 10) / (x1 - x0)) (h * (9 / 10) / (y1 - y0))) / 2
                  - x0 * min (w * (9 / 10) / (x1 - x0)) (h * (9 / 10) / (y1 - y0)))"
    and "translateY (fitBounds s)
           = Num ((h - (y1 - y0) * min (w * (9 / 10) / (x1 - x0)) (h * (9 / 10) / (y1 - y0))) / 2
                  - y0 * min (w * (9 / 10) / (x1 - x0)) (h * (9 / 10) / (y1 - y0)))"
    and "canvas (fitBounds s) = canvas s" and "offset (fitBounds s) = offset s"
  using nd by (simp_all add: fitBounds_def Let_def b c)

lemma fit_scale_bounds:
  fixes w h mw mh :: real
  assumes "0 < w" "0 < h" "0 < mw" "0 < mh"
  defines "k \<equiv> min (w * (9 / 10) / mw) (h * (9 / 10) / mh)"
  shows "0 < k" and "mw * k \<le> w * (9 / 10)" and "mh * k \<le> h * (9 / 10)"
proof -
  show "0 < k" using assms by (simp add: k_def)
  have "k \<le> w * (9 / 10) / mw" by (simp add: k_def)
  then have "k * mw \<le> w * (9 / 10)" using \<open>0 < mw\<close> by (simp add: pos_le_divide_eq)
  then show "mw * k \<le> w * (9 / 10)" by (simp add: mult.commute)
  have "k \<le> h * (9 / 10) / mh" by (simp add: k_def)
  then have "k * mh \<le> h * (9 / 10)" using \<open>0 < mh\<close> by (simp add: pos_le_divide_eq)
  then show "mh * k \<le> h * (9 / 10)" by (simp add: mult.commute)
qed

text \<open>A span of scaled length at most nine tenths of the viewport, centred, stays inside it.\<close>

lemma centred_inside:
  fixes w m k d :: real
  assumes "0 < w" "0 \<le> k" "m * k \<le> w * (9 / 10)" "0 \<le> d" "d \<le> m"
  shows "0 \<le> d * k + (w - m * k) / 2" and "d * k + (w - m * k) / 2 \<le> w"
proof -
  have dk: "0 \<le> d * k" "d * k \<le> m * k"
    using assms by (simp_all add: mult_right_mono)
  have mk: "m * k * 10 \<le> w * 9" using assms(3) by simp
  define a where "a = d * k"
  define b where "b = m * k"
  have ab: "0 \<le> a" "a \<le> b" "b * 10 \<le> w * 9"
    using dk mk by (simp_all add: a_def b_def)
  have "0 \<le> a + (w - b) / 2"
    using ab \<open>0 < w\<close> by argo
  moreover have "a + (w - b) / 2 \<le> w"
    using ab \<open>0 < w\<close> by argo
  ultimately show "0 \<le> d * k + (w - m * k) / 2" and "d * k + (w - m * k) / 2 \<le> w"
    by (simp_all add: a_def b_def)
qed

section \<open>The bounds scan skips outliers and reads nothing but the points\<close>

lemma Math_min_PosInf [simp]: "Math_min PosInf (Num a) = Num a"
  by (simp add: Math_min_def)

lemma Math_max_NegInf [simp]: "Math_max NegInf (Num a) = Num a"
  by (simp add: Math_max_def)

lemma offset_boundsPoint [simp]: "offset (boundsPoint p s) = offset s"
  by (simp add: boundsPoint_def Let_def)

lemma boundsPoint_outlier: "outlierPoint (offset s) p \<Longrightarrow> boundsPoint p s = s"
  by (simp add: boundsPoint_def outlierPoint_def Let_def)

lemma boundsPoint_data_update:
  "boundsPoint p (s\<lparr>data := X\<rparr>) = (boundsPoint p s)\<lparr>data := X\<rparr>"
  by (simp add: boundsPoint_def Let_def)

lemma fold_boundsPoint_filter:
  "fold boundsPoint (filter (\<lambda>p. \<not> outlierPoint (offset s) p) ps) s = fold boundsPoint ps s"
proof (induction ps arbitrary: s)
  case Nil
  show ?case by simp
next
  case (Cons p ps)
  show ?case
  proof (cases "outlierPoint (offset s) p")
    case True
    then show ?thesis using Cons.IH [of s] by (simp add: boundsPoint_outlier)
  next
    case False
    then show ?thesis using Cons.IH [of "boundsPoint p s"] by simp
  qed
qed

lemma offset_fold_boundsPoint [simp]: "offset (fold boundsPoint ps s) = offset s"
  by (induction ps arbitrary: s) simp_all

lemma fold_boundsPoint_data_update:
  "fold boundsPoint ps (s\<lparr>data := X\<rparr>) = (fold boundsPoint ps s)\<lparr>data := X\<rparr>"
  by (induction ps arbitrary: s) (simp_all add: boundsPoint_data_update)

lemma offset_boundsRoad [simp]: "offset (boundsRoad rd s) = offset s"
  by (simp add: boundsRoad_def)

lemma reset_data_update:
  "(s\<lparr>data := X\<rparr>)\<lparr>minX := a, maxX := b, minY := c, maxY := e\<rparr>
     = (s\<lparr>minX := a, maxX := b, minY := c, maxY := e\<rparr>)\<lparr>data := X\<rparr>"
  by (cases s) simp

lemma fold_boundsRoad_inThresholdOnly:
  "fold boundsRoad (inThresholdOnly (offset s) roads) s = fold boundsRoad roads s"
proof (induction roads arbitrary: s)
  case Nil
  show ?case by (simp add: inThresholdOnly_def)
next
  case (Cons rd roads)
  have "fold boundsRoad (inThresholdOnly (offset s) (rd # roads)) s
        = fold boundsRoad (inThresholdOnly (offset s) roads) (boundsRoad rd s)"
    by (simp add: inThresholdOnly_def boundsRoad_def fold_boundsPoint_filter)
  also have "\<dots> = fold boundsRoad roads (boundsRoad rd s)"
    using Cons.IH [of "boundsRoad rd s"] by simp
  finally show ?case by simp
qed

lemma fold_boundsRoad_data_update:
  "fold boundsRoad roads (s\<lparr>data := X\<rparr>) = (fold boundsRoad roads s)\<lparr>data := X\<rparr>"
  by (induction roads arbitrary: s) (simp_all add: boundsRoad_def fold_boundsPoint_data_update)

lemma data_fold_boundsPoint [simp]: "data (fold boundsPoint ps s) = data s"
  by (induction ps arbitrary: s) (simp_all add: boundsPoint_def Let_def)

lemma data_fold_boundsRoad [simp]: "data (fold boundsRoad roads s) = data s"
  by (induction roads arbitrary: s) (simp_all add: boundsRoad_def)

lemma data_calculateBounds [simp]: "data (calculateBounds s) = data s"
  by (simp add: calculateBounds_def Let_def split: option.splits)

lemma pathPoints_lineTo:
  "pathPoints (map (lineToOp v) ps @ rest)
     = map (\<lambda>p. worldToCanvas v (xc p) (yc p)) ps @ pathPoints rest"
  by (induction ps) (simp_all add: lineToOp_def Let_def)

lemma pathPoints_styleOps [simp]: "pathPoints (styleOps v rd p @ rest) = pathPoints rest"
  by (simp add: styleOps_def)

lemma pathPoints_labelOps [simp]: "pathPoints (labelOps v rd) = []"
  by (simp add: labelOps_def Let_def split: option.splits)

lemma pathPoints_drawRoadLine:
  assumes "2 \<le> length (BoundaryPoints rd)"
  shows "pathPoints (drawRoadLine v rd)
           = map (\<lambda>p. worldToCanvas v (xc p) (yc p)) (BoundaryPoints rd)"
proof -
  from assms obtain p0 p1 rest where ps: "BoundaryPoints rd = p0 # p1 # rest"
    by (cases "BoundaryPoints rd"; cases "tl (BoundaryPoints rd)") auto
  show ?thesis
    using pathPoints_lineTo [of v "p1 # rest"]
    by (simp add: drawRoadLine_def ps Let_def)
qed

lemma view_boundsPoint [simp]:
  "scale (boundsPoint p s) = scale s" "translateX (boundsPoint p s) = translateX s"
  "translateY (boundsPoint p s) = translateY s"
  by (simp_all add: boundsPoint_def Let_def)

lemma view_fold_boundsPoint [simp]:
  "scale (fold boundsPoint ps s) = scale s" "translateX (fold boundsPoint ps s) = translateX s"
  "translateY (fold boundsPoint ps s) = translateY s"
  by (induction ps arbitrary: s) simp_all

lemma view_fold_boundsRoad [simp]:
  "scale (fold boundsRoad rs s) = scale s" "translateX (fold boundsRoad rs s) = translateX s"
  "translateY (fold boundsRoad rs s) = translateY s"
  by (induction rs arbitrary: s) (simp_all add: boundsRoad_def)

lemma view_calculateBounds [simp]:
  "scale (calculateBounds s) = scale s" "translateX (calculateBounds s) = translateX s"
  "translateY (calculateBounds s) = translateY s"
  by (simp_all add: calculateBounds_def Let_def split: option.splits)

lemma fold_boundsPoint_all_outliers:
  "list_all (outlierPoint (offset s)) ps \<Longrightarrow> fold boundsPoint ps s = s"
  by (induction ps) (simp_all add: boundsPoint_outlier)

lemma fold_boundsRoad_all_outliers:
  "list_all (\<lambda>rd. list_all (outlierPoint (offset s)) (BoundaryPoints rd)) roads
     \<Longrightarrow> fold boundsRoad roads s = s"
  by (induction roads) (simp_all add: boundsRoad_def fold_boundsPoint_all_outliers)

lemma calculateBounds_noValidGeometry:
  assumes "noValidGeometry s"
  shows "calculateBounds s = s\<lparr>minX := PosInf, maxX := NegInf, minY := PosInf, maxY := NegInf\<rparr>"
proof -
  let ?s1 = "s\<lparr>minX := PosInf, maxX := NegInf, minY := PosInf, maxY := NegInf\<rparr>"
  show ?thesis
  proof (cases "data s")
    case None
    then show ?thesis by (simp add: calculateBounds_def Let_def)
  next
    case (Some d)
    show ?thesis
    proof (cases "roadLine d")
      case None
      with Some show ?thesis by (simp add: calculateBounds_def Let_def)
    next
      case (Some roads)
      with \<open>data s = Some d\<close> assms
      have "list_all (\<lambda>rd. list_all (outlierPoint (offset ?s1)) (BoundaryPoints rd)) roads"
        by (simp add: noValidGeometry_def)
      then have "fold boundsRoad roads ?s1 = ?s1"
        by (rule fold_boundsRoad_all_outliers)
      with Some \<open>data s = Some d\<close> show ?thesis
        by (simp add: calculateBounds_def Let_def)
    qed
  qed
qed

section \<open>Styles reach the stroke through the path\<close>


section \<open>The scenario document, and the length loop\<close>

lemma sqrt_100: "sqrt 100 = (10::real)"
  using real_sqrt_abs [of "10::real"] by simp

lemma exLoaded_view:
  "scale exLoaded = Num 72" "translateX exLoaded = Num 40" "translateY exLoaded = Num 300"
  "offset exLoaded = \<lparr>xc = Num 100, yc = Num 100\<rparr>" "canvas exLoaded = exCanvas"
  "data exLoaded = Some exDoc1" "selectedRoad exLoaded = None"
  by (simp_all add: exLoaded_def loadData_def fitBounds_def calculateBounds_def boundsRoad_def
      boundsPoint_def Let_def exDoc1_def exR1_def new_MapRenderer_def exCanvas_def pt_def
      REASONABLE_LIMIT_def Math_min_def)

lemma exLoaded_pick:
  "selectRoadAt exLoaded (Num 400) (Num 300)
     = Inr (exLoaded\<lparr>selectedRoad := Some exR1\<rparr>,
            Some \<lparr>info_id = ''R1'', info_length = calculateRoadLength exR1\<rparr>)"
  by (simp add: selectRoadAt_def canvasToWorld_def segmentBody_def Let_def exLoaded_view
      exCanvas_def exDoc1_def exR1_def pt_def)

lemma pathLength_Nil [simp]: "pathLength [] = 0"
  by (simp add: pathLength_def)

lemma pathLength_single [simp]: "pathLength [p] = 0"
  by (simp add: pathLength_def)

lemma pathLength_Cons2 [simp]:
  "pathLength (p # q # rest) = euclid p q + pathLength (q # rest)"
  by (simp add: pathLength_def sum.lessThan_Suc_shift del: sum.lessThan_Suc)

lemma lengthLoop_finite:
  "list_all finitePoint ps \<Longrightarrow> lengthLoop ps (Num acc) = Num (acc + pathLength ps)"
proof (induction ps "Num acc" arbitrary: acc rule: lengthLoop.induct)
  case (1 p1 p2 rest)
  from "1.prems" obtain a b c d where
    p: "xc p1 = Num a" "yc p1 = Num b" "xc p2 = Num c" "yc p2 = Num d"
    by (auto simp: finitePoint_def isFinite_iff)
  have nn: "\<not> (c - a) * (c - a) + (d - b) * (d - b) < 0"
    by (simp add: not_less)
  have e: "euclid p1 p2 = sqrt ((c - a) * (c - a) + (d - b) * (d - b))"
    by (simp add: euclid_def p power2_eq_square)
  have "lengthLoop (p1 # p2 # rest) (Num acc)
          = lengthLoop (p2 # rest) (Num (acc + euclid p1 p2))"
    using nn by (simp add: Let_def p e)
  also have "\<dots> = Num (acc + euclid p1 p2 + pathLength (p2 # rest))"
    using "1.hyps" [of "xc p2 - xc p1" "yc p2 - yc p1" "acc + euclid p1 p2"] "1.prems" nn
    by (simp add: p e)
  finally show ?case by (simp add: add.assoc)
qed simp_all

lemma calculateRoadLength_finite:
  "list_all finitePoint (BoundaryPoints rd)
     \<Longrightarrow> calculateRoadLength rd = Num (pathLength (BoundaryPoints rd))"
  by (simp add: calculateRoadLength_def lengthLoop_finite)

section \<open>The search loop keeps the first nearest entry\<close>

lemma js_lt_Num_PosInf [simp]: "js_lt (Num a) PosInf"
  by simp

lemma firstNearest_single [simp]: "firstNearest [e] = Some e"
  by (simp add: firstNearest_def)








lemma segments_Cons2 [simp]: "segments (p # q # rest) = (p, q) # segments (q # rest)"
  by (simp add: segments_def)

lemma segments_short [simp]: "segments [] = []" "segments [p] = []"
  by (simp_all add: segments_def)



section \<open>Two loaded maps, and a click without a road list\<close>



lemma selectRoadAt_no_roadLine:
  "data s = None \<or> (\<exists>d. data s = Some d \<and> roadLine d = None)
     \<Longrightarrow> selectRoadAt s cx cy = Inr (s, None)"
  by (auto simp: selectRoadAt_def Let_def)

section \<open>C1: screen to world and back\<close>

text \<open>
  C1, as stated: \<^verbatim>\<open>worldToCanvas\<close> after \<^verbatim>\<open>canvasToWorld\<close> returns the screen point,
  \<^verbatim>\<open>canvasToWorld\<close> re-adding the offset. It fails: \<^verbatim>\<open>canvasToWorld\<close> returns
  coordinates with the offset already taken off and adds nothing back, while
  \<^verbatim>\<open>worldToCanvas\<close> subtracts the offset from its argument. With offset (100, 100),
  scale 1, no translation and a canvas 600 high, the screen point (10, 20) comes back
  as (-90, 120).
\<close>

theorem canvasToWorld_counterexample:
  "worldToCanvas exOffsetView (xc (canvasToWorld exOffsetView (Num 10) (Num 20)))
                              (yc (canvasToWorld exOffsetView (Num 10) (Num 20)))
     = \<lparr>xc = Num (- 90), yc = Num 120\<rparr>
   \<and> worldToCanvas exOffsetView (xc (canvasToWorld exOffsetView (Num 10) (Num 20)))
                                (yc (canvasToWorld exOffsetView (Num 10) (Num 20)))
     \<noteq> \<lparr>xc = Num 10, yc = Num 20\<rparr>"
  by (simp add: worldToCanvas_def canvasToWorld_def exOffsetView_def new_MapRenderer_def
      exCanvas_def Let_def)

text \<open>
  C1, amended: for every finite screen point and every finite view with nonzero scale,
  \<^verbatim>\<open>canvasToWorld\<close> returns offset-adjusted coordinates, and \<^verbatim>\<open>worldToCanvas\<close>
  applied to them with the document offset added back by the caller returns the screen
  point.
  (Proved on the exact numbers of this model, which leaves rounding out.)
\<close>

theorem canvasToWorld_roundtrip:
  assumes "finiteView s" and "scale s \<noteq> Num 0"
  shows "worldToCanvas s (xc (canvasToWorld s (Num sx) (Num sy)) + xc (offset s))
                         (yc (canvasToWorld s (Num sx) (Num sy)) + yc (offset s))
           = \<lparr>xc = Num sx, yc = Num sy\<rparr>"
proof -
  from assms(1) obtain k tx ty h ox oy where v:
    "scale s = Num k" "translateX s = Num tx" "translateY s = Num ty"
    "clientHeight (canvas s) = Num h" "xc (offset s) = Num ox" "yc (offset s) = Num oy"
    by (rule finiteViewE)
  from assms(2) v have k: "k \<noteq> 0" by simp
  show ?thesis
    using k by (simp add: worldToCanvas_def canvasToWorld_def Let_def v)
qed

theorem canvasToWorld_roundtrip_witness:
  "worldToCanvas exOffsetView (xc (canvasToWorld exOffsetView (Num 10) (Num 20)) + Num 100)
                              (yc (canvasToWorld exOffsetView (Num 10) (Num 20)) + Num 100)
     = \<lparr>xc = Num 10, yc = Num 20\<rparr>"
  using canvasToWorld_roundtrip [of exOffsetView 10 20]
  by (simp add: finiteView_def exOffsetView_def new_MapRenderer_def exCanvas_def)

section \<open>C2: a load and the selection\<close>

text \<open>
  C2, as stated: after \<^verbatim>\<open>loadData\<close> returns no road is selected. It fails:
  \<^verbatim>\<open>loadData\<close> assigns \<^verbatim>\<open>data\<close> and \<^verbatim>\<open>offset\<close>, recomputes the bounds and
  refits, and never writes \<^verbatim>\<open>selectedRoad\<close>. With R1 selected, loading the empty
  document leaves R1 selected.
\<close>

theorem loadData_selection_counterexample:
  "selectedRoad (loadData ((new_MapRenderer exCanvas)\<lparr>selectedRoad := Some exR1\<rparr>) exDocEmpty)
     = Some exR1"
  by (simp add: loadData_def Let_def)

text \<open>
  C2, amended: a document load leaves the selection as it was; the road selected before
  \<^verbatim>\<open>loadData\<close> is still the selected road after it.
\<close>

theorem loadData_keeps_selection:
  "selectedRoad (loadData s jsonData) = selectedRoad s"
  by (simp add: loadData_def Let_def)

section \<open>C3: bounds without width or height\<close>

text \<open>
  C3, as stated: on bounds of zero width or height \<^verbatim>\<open>fitBounds\<close> does not divide by
  zero and the scale it sets is finite and positive, a fixed default when both are zero.
  It fails: \<^verbatim>\<open>fitBounds\<close> divides by \<^verbatim>\<open>mapWidth\<close> and \<^verbatim>\<open>mapHeight\<close> as they
  are and has no default. A fresh renderer on an 800 by 600 canvas that loads a map
  whose points all lie at (5, 7) gets the bounds (5, 5, 7, 7), the scale
  \<^verbatim>\<open>Infinity\<close> and the translation \<^verbatim>\<open>NaN\<close>.
\<close>

theorem fitBounds_point_counterexample:
  "boundsOf (calculateBounds ((new_MapRenderer exCanvas)\<lparr>data := Some exDocPoint\<rparr>))
     = (Num 5, Num 5, Num 7, Num 7)
   \<and> scale (loadData (new_MapRenderer exCanvas) exDocPoint) = PosInf
   \<and> translateX (loadData (new_MapRenderer exCanvas) exDocPoint) = NaN
   \<and> translateY (loadData (new_MapRenderer exCanvas) exDocPoint) = NaN"
  by (simp add: loadData_def fitBounds_def boundsOf_def calculateBounds_def boundsRoad_def
      boundsPoint_def Let_def exDocPoint_def new_MapRenderer_def exCanvas_def pt_def
      REASONABLE_LIMIT_def Math_min_def minus_jsnum_def)

text \<open>
  C3, amended: on finite bounds where exactly one of \<^verbatim>\<open>mapWidth\<close> and
  \<^verbatim>\<open>mapHeight\<close> is zero, with a viewport of positive width and height,
  \<^verbatim>\<open>fitBounds\<close> sets the scale to the value computed for the other axis (the division
  by zero gives \<^verbatim>\<open>Infinity\<close> for the flat axis and \<^verbatim>\<open>Math.min\<close> drops it); that
  scale is finite and positive and the translation is finite.
\<close>

theorem fitBounds_one_axis:
  assumes b: "minX s = Num x0" "maxX s = Num x1" "minY s = Num y0" "maxY s = Num y1"
    and c: "clientWidth (canvas s) = Num w" "clientHeight (canvas s) = Num h"
    and pos: "0 < w" "0 < h"
    and one: "x0 = x1 \<and> y0 < y1 \<or> x0 < x1 \<and> y0 = y1"
  shows "scale (fitBounds s)
           = (if x0 = x1 then Num (h * (9 / 10) / (y1 - y0)) else Num (w * (9 / 10) / (x1 - x0)))
       \<and> js_gt (scale (fitBounds s)) (Num 0)
       \<and> isFinite (translateX (fitBounds s)) \<and> isFinite (translateY (fitBounds s))"
  using one pos
  by (auto simp: fitBounds_def Let_def b c Math_min_def)

theorem fitBounds_one_axis_witness:
  "scale (fitBounds exVerticalView) = Num 108
   \<and> translateX (fitBounds exVerticalView) = Num 400
   \<and> translateY (fitBounds exVerticalView) = Num 30"
proof -
  have h: "minX exVerticalView = Num 0" "maxX exVerticalView = Num 0"
    "minY exVerticalView = Num 0" "maxY exVerticalView = Num 5"
    "clientWidth (canvas exVerticalView) = Num 800" "clientHeight (canvas exVerticalView) = Num 600"
    by (simp_all add: exVerticalView_def exOffsetView_def new_MapRenderer_def exCanvas_def)
  have t: "translateX (fitBounds exVerticalView) = Num 400"
          "translateY (fitBounds exVerticalView) = Num 30"
    by (simp_all add: fitBounds_def Let_def h Math_min_def)
  from fitBounds_one_axis [OF h] t show ?thesis by simp
qed

section \<open>C4: the zoom keeps its centre\<close>

text \<open>
  C4, as stated: the world point that screenToWorld (\<^verbatim>\<open>canvasToWorld\<close>) gives for
  (cx, cy) before the zoom is projected back to (cx, cy) by \<^verbatim>\<open>worldToCanvas\<close> after
  it. It fails whenever the offset is not zero: \<^verbatim>\<open>canvasToWorld\<close> returns the point
  with the offset taken off, and \<^verbatim>\<open>worldToCanvas\<close> takes the offset off again. With
  offset (100, 100), scale 1, no translation and a canvas 600 high, \<^verbatim>\<open>canvasToWorld\<close>
  gives (400, 300) for the screen point (400, 300); after a zoom by 1.2 at (400, 300)
  that point is projected to (280, 420).
\<close>

theorem zoom_anchor_counterexample:
  "canvasToWorld exOffsetView (Num 400) (Num 300) = \<lparr>xc = Num 400, yc = Num 300\<rparr>
   \<and> worldToCanvas (zoom exOffsetView (Num (6 / 5)) (Num 400) (Num 300))
         (xc (canvasToWorld exOffsetView (Num 400) (Num 300)))
         (yc (canvasToWorld exOffsetView (Num 400) (Num 300)))
       = \<lparr>xc = Num 280, yc = Num 420\<rparr>
   \<and> worldToCanvas (zoom exOffsetView (Num (6 / 5)) (Num 400) (Num 300))
         (xc (canvasToWorld exOffsetView (Num 400) (Num 300)))
         (yc (canvasToWorld exOffsetView (Num 400) (Num 300)))
       \<noteq> \<lparr>xc = Num 400, yc = Num 300\<rparr>"
  by (simp add: worldToCanvas_def canvasToWorld_def zoom_def zoomWorld_def Let_def
      exOffsetView_def new_MapRenderer_def exCanvas_def)

text \<open>
  C4, amended: for every finite factor and centre (cx, cy) and every finite view with
  positive scale, the raw world point under (cx, cy), which is the result of
  \<^verbatim>\<open>canvasToWorld\<close> with the document offset added back and is the point \<^verbatim>\<open>zoom\<close>
  computes before it changes the scale, is projected to (cx, cy) by \<^verbatim>\<open>worldToCanvas\<close>
  before the zoom and again after it.
  (Proved on the exact numbers of this model, which leaves rounding out.)
\<close>

theorem zoom_anchor:
  assumes "finiteView s" and "js_gt (scale s) (Num 0)"
  shows "zoomWorld s (Num cx) (Num cy)
           = \<lparr>xc = xc (canvasToWorld s (Num cx) (Num cy)) + xc (offset s),
              yc = yc (canvasToWorld s (Num cx) (Num cy)) + yc (offset s)\<rparr>
         \<and> worldToCanvas s (xc (zoomWorld s (Num cx) (Num cy))) (yc (zoomWorld s (Num cx) (Num cy)))
           = \<lparr>xc = Num cx, yc = Num cy\<rparr>
         \<and> worldToCanvas (zoom s (Num factor) (Num cx) (Num cy))
              (xc (zoomWorld s (Num cx) (Num cy))) (yc (zoomWorld s (Num cx) (Num cy)))
           = \<lparr>xc = Num cx, yc = Num cy\<rparr>"
proof -
  from assms(1) obtain k tx ty h ox oy where v:
    "scale s = Num k" "translateX s = Num tx" "translateY s = Num ty"
    "clientHeight (canvas s) = Num h" "xc (offset s) = Num ox" "yc (offset s) = Num oy"
    by (rule finiteViewE)
  from assms(2) v have k: "0 < k" by simp
  have before:
    "worldToCanvas s (xc (zoomWorld s (Num cx) (Num cy))) (yc (zoomWorld s (Num cx) (Num cy)))
       = \<lparr>xc = Num cx, yc = Num cy\<rparr>"
    using k by (simp add: worldToCanvas_def zoomWorld_def Let_def v)
  have after:
    "worldToCanvas (zoom s (Num factor) (Num cx) (Num cy))
       (xc (zoomWorld s (Num cx) (Num cy))) (yc (zoomWorld s (Num cx) (Num cy)))
       = \<lparr>xc = Num cx, yc = Num cy\<rparr>"
    using k by (simp add: worldToCanvas_def zoom_def zoomWorld_def Let_def v)
  from zoomWorld_canvasToWorld [of s "Num cx" "Num cy"] before after show ?thesis
    by (simp only: simp_thms)
qed

theorem zoom_anchor_witness:
  "zoomWorld exOffsetView (Num 400) (Num 300) = \<lparr>xc = Num 500, yc = Num 400\<rparr>
   \<and> scale (zoom exOffsetView (Num (6 / 5)) (Num 400) (Num 300)) = Num (6 / 5)
   \<and> worldToCanvas (zoom exOffsetView (Num (6 / 5)) (Num 400) (Num 300)) (Num 500) (Num 400)
       = \<lparr>xc = Num 400, yc = Num 300\<rparr>"
proof -
  have gt: "js_gt (scale exOffsetView) (Num 0)"
    by (simp add: exOffsetView_def new_MapRenderer_def)
  have w: "zoomWorld exOffsetView (Num 400) (Num 300) = \<lparr>xc = Num 500, yc = Num 400\<rparr>"
    by (simp add: zoomWorld_def exOffsetView_def new_MapRenderer_def exCanvas_def)
  have sc: "scale (zoom exOffsetView (Num (6 / 5)) (Num 400) (Num 300)) = Num (6 / 5)"
    by (simp add: zoom_def Let_def exOffsetView_def new_MapRenderer_def)
  have "worldToCanvas (zoom exOffsetView (Num (6 / 5)) (Num 400) (Num 300))
          (xc (zoomWorld exOffsetView (Num 400) (Num 300)))
          (yc (zoomWorld exOffsetView (Num 400) (Num 300)))
          = \<lparr>xc = Num 400, yc = Num 300\<rparr>"
    using zoom_anchor [OF finiteView_exOffsetView gt, of 400 300 "6 / 5"]
      by (rule conjunct2 [THEN conjunct2])
  with w sc show ?thesis by simp
qed

section \<open>C5: the fit centres the bounding box\<close>

text \<open>
  C5: for bounds with positive width and height and a viewport with positive width and
  height, after \<^verbatim>\<open>fitBounds\<close> the scale is the smaller of 0.9 * width / mapWidth and
  0.9 * height / mapHeight, the centre of the bounding box is projected to the centre
  of the viewport, and every point of the bounding box is projected into the viewport.
  The bounds are offset-adjusted, so a point of the box is handed to
  \<^verbatim>\<open>worldToCanvas\<close> with the offset added.
  (Proved on the exact numbers of this model, which leaves rounding out.)
\<close>

theorem fitBounds_centres:
  assumes b: "minX s = Num x0" "maxX s = Num x1" "minY s = Num y0" "maxY s = Num y1"
    and c: "clientWidth (canvas s) = Num w" "clientHeight (canvas s) = Num h"
    and off: "offset s = \<lparr>xc = Num ox, yc = Num oy\<rparr>"
    and nd: "x0 < x1" "y0 < y1" and pos: "0 < w" "0 < h"
  shows "scale (fitBounds s) = Num (min (w * (9 / 10) / (x1 - x0)) (h * (9 / 10) / (y1 - y0)))
       \<and> worldToCanvas (fitBounds s) (Num ((x0 + x1) / 2 + ox)) (Num ((y0 + y1) / 2 + oy))
           = \<lparr>xc = Num (w / 2), yc = Num (h / 2)\<rparr>
       \<and> (\<forall>x y. x0 \<le> x \<and> x \<le> x1 \<and> y0 \<le> y \<and> y \<le> y1 \<longrightarrow>
             js_le (Num 0) (xc (worldToCanvas (fitBounds s) (Num (x + ox)) (Num (y + oy)))) \<and>
             js_le (xc (worldToCanvas (fitBounds s) (Num (x + ox)) (Num (y + oy)))) (Num w) \<and>
             js_le (Num 0) (yc (worldToCanvas (fitBounds s) (Num (x + ox)) (Num (y + oy)))) \<and>
             js_le (yc (worldToCanvas (fitBounds s) (Num (x + ox)) (Num (y + oy)))) (Num h))"
proof -
  define k where "k = min (w * (9 / 10) / (x1 - x0)) (h * (9 / 10) / (y1 - y0))"
  note f = fitBounds_finite [OF b c nd, folded k_def]
  have k: "0 < k" "(x1 - x0) * k \<le> w * (9 / 10)" "(y1 - y0) * k \<le> h * (9 / 10)"
    unfolding k_def using fit_scale_bounds [of w h "x1 - x0" "y1 - y0"] pos nd by simp_all
  have w2c: "worldToCanvas (fitBounds s) (Num (x + ox)) (Num (y + oy))
      = \<lparr>xc = Num ((x - x0) * k + (w - (x1 - x0) * k) / 2),
         yc = Num (h - ((y - y0) * k + (h - (y1 - y0) * k) / 2))\<rparr>" for x y
    by (simp add: worldToCanvas_def Let_def f off c algebra_simps)
  have centre: "worldToCanvas (fitBounds s) (Num ((x0 + x1) / 2 + ox)) (Num ((y0 + y1) / 2 + oy))
           = \<lparr>xc = Num (w / 2), yc = Num (h / 2)\<rparr>"
    unfolding w2c by (simp add: field_simps)
  have inside: "js_le (Num 0) (xc (worldToCanvas (fitBounds s) (Num (x + ox)) (Num (y + oy)))) \<and>
             js_le (xc (worldToCanvas (fitBounds s) (Num (x + ox)) (Num (y + oy)))) (Num w) \<and>
             js_le (Num 0) (yc (worldToCanvas (fitBounds s) (Num (x + ox)) (Num (y + oy)))) \<and>
             js_le (yc (worldToCanvas (fitBounds s) (Num (x + ox)) (Num (y + oy)))) (Num h)"
    if "x0 \<le> x" "x \<le> x1" "y0 \<le> y" "y \<le> y1" for x y
  proof -
    have hx: "0 \<le> (x - x0) * k + (w - (x1 - x0) * k) / 2"
             "(x - x0) * k + (w - (x1 - x0) * k) / 2 \<le> w"
      using centred_inside [of w k "x1 - x0" "x - x0"] pos k that by simp_all
    have hy: "0 \<le> (y - y0) * k + (h - (y1 - y0) * k) / 2"
             "(y - y0) * k + (h - (y1 - y0) * k) / 2 \<le> h"
      using centred_inside [of h k "y1 - y0" "y - y0"] pos k that by simp_all
    have hy': "0 \<le> h - ((y - y0) * k + (h - (y1 - y0) * k) / 2)"
              "h - ((y - y0) * k + (h - (y1 - y0) * k) / 2) \<le> h"
      using hy by - argo+
    show ?thesis unfolding w2c using hx hy' by simp
  qed
  from f(1) centre inside show ?thesis unfolding k_def by blast
qed

theorem fitBounds_centres_witness:
  "scale (fitBounds exBoundsView) = Num 72
   \<and> worldToCanvas (fitBounds exBoundsView) (Num 105) (Num (205 / 2))
       = \<lparr>xc = Num 400, yc = Num 300\<rparr>
   \<and> js_le (Num 0) (xc (worldToCanvas (fitBounds exBoundsView) (Num 110) (Num 105)))
   \<and> js_le (xc (worldToCanvas (fitBounds exBoundsView) (Num 110) (Num 105))) (Num 800)
   \<and> js_le (Num 0) (yc (worldToCanvas (fitBounds exBoundsView) (Num 110) (Num 105)))
   \<and> js_le (yc (worldToCanvas (fitBounds exBoundsView) (Num 110) (Num 105))) (Num 600)"
proof -
  have h: "minX exBoundsView = Num 0" "maxX exBoundsView = Num 10"
    "minY exBoundsView = Num 0" "maxY exBoundsView = Num 5"
    "clientWidth (canvas exBoundsView) = Num 800" "clientHeight (canvas exBoundsView) = Num 600"
    "offset exBoundsView = \<lparr>xc = Num 100, yc = Num 100\<rparr>"
    by (simp_all add: exBoundsView_def exOffsetView_def new_MapRenderer_def exCanvas_def)
  note t = fitBounds_centres [OF h]
  have t1: "scale (fitBounds exBoundsView) = Num 72"
    and t2: "worldToCanvas (fitBounds exBoundsView) (Num 105) (Num (205 / 2))
               = \<lparr>xc = Num 400, yc = Num 300\<rparr>"
    using t by simp_all
  have box: "js_le (Num 0) (xc (worldToCanvas (fitBounds exBoundsView) (Num (x + 100)) (Num (y + 100)))) \<and>
            js_le (xc (worldToCanvas (fitBounds exBoundsView) (Num (x + 100)) (Num (y + 100)))) (Num 800) \<and>
            js_le (Num 0) (yc (worldToCanvas (fitBounds exBoundsView) (Num (x + 100)) (Num (y + 100)))) \<and>
            js_le (yc (worldToCanvas (fitBounds exBoundsView) (Num (x + 100)) (Num (y + 100)))) (Num 600)"
    if "0 \<le> x" "x \<le> 10" "0 \<le> y" "y \<le> 5" for x y :: real
    using t that by simp
  have t3: "js_le (Num 0) (xc (worldToCanvas (fitBounds exBoundsView) (Num 110) (Num 105))) \<and>
            js_le (xc (worldToCanvas (fitBounds exBoundsView) (Num 110) (Num 105))) (Num 800) \<and>
            js_le (Num 0) (yc (worldToCanvas (fitBounds exBoundsView) (Num 110) (Num 105))) \<and>
            js_le (yc (worldToCanvas (fitBounds exBoundsView) (Num 110) (Num 105))) (Num 600)"
    using box [of 10 5] by simp
  from t1 t2 t3 show ?thesis by simp
qed

section \<open>C6: the pick\<close>




section \<open>C7: outliers and the bounds\<close>

text \<open>
  C7: a boundary point whose offset-adjusted \<^verbatim>\<open>|x|\<close> or \<^verbatim>\<open>|y|\<close> exceeds
  \<open>10\<^sup>1\<^sup>2\<close> takes no part in the bounds: \<^verbatim>\<open>calculateBounds\<close> computes the same
  bounds as on the document with every such point removed. The points stay in the
  document (\<^verbatim>\<open>data\<close> is unchanged), and the path \<^verbatim>\<open>drawRoadLine\<close> strokes for a
  road of two or more points still goes through every one of its boundary points, in
  any view \<open>v\<close>.
\<close>

theorem outliers_excluded:
  assumes "data s = Some d" and "roadLine d = Some roads"
  shows "boundsOf (calculateBounds s)
           = boundsOf (calculateBounds
                (s\<lparr>data := Some (d\<lparr>roadLine := Some (inThresholdOnly (offset s) roads)\<rparr>)\<rparr>))
       \<and> data (calculateBounds s) = data s
       \<and> (\<forall>rd \<in> set roads. 2 \<le> length (BoundaryPoints rd) \<longrightarrow>
            pathPoints (drawRoadLine v rd)
              = map (\<lambda>p. worldToCanvas v (xc p) (yc p)) (BoundaryPoints rd))"
proof -
  let ?s1 = "s\<lparr>minX := PosInf, maxX := NegInf, minY := PosInf, maxY := NegInf\<rparr>"
  let ?X = "Some (d\<lparr>roadLine := Some (inThresholdOnly (offset s) roads)\<rparr>)"
  have "calculateBounds (s\<lparr>data := ?X\<rparr>)
        = fold boundsRoad (inThresholdOnly (offset s) roads) (?s1\<lparr>data := ?X\<rparr>)"
    by (simp add: calculateBounds_def Let_def reset_data_update)
  also have "\<dots> = (fold boundsRoad (inThresholdOnly (offset ?s1) roads) ?s1)\<lparr>data := ?X\<rparr>"
    by (simp add: fold_boundsRoad_data_update)
  also have "\<dots> = (fold boundsRoad roads ?s1)\<lparr>data := ?X\<rparr>"
    by (simp only: fold_boundsRoad_inThresholdOnly)
  also have "\<dots> = (calculateBounds s)\<lparr>data := ?X\<rparr>"
    using assms by (simp add: calculateBounds_def Let_def)
  finally have "boundsOf (calculateBounds (s\<lparr>data := ?X\<rparr>)) = boundsOf (calculateBounds s)"
    by (simp add: boundsOf_def)
  then show ?thesis
    by (simp add: pathPoints_drawRoadLine)
qed

theorem outliers_excluded_witness:
  "boundsOf (calculateBounds exFarView) = (Num 0, Num 10, Num 0, Num 5)
   \<and> boundsOf (calculateBounds
        (exFarView\<lparr>data := Some (exDocFar\<lparr>roadLine :=
           Some [exFarRoad\<lparr>BoundaryPoints := [pt 0 0, pt 10 5]\<rparr>]\<rparr>)\<rparr>))
       = (Num 0, Num 10, Num 0, Num 5)
   \<and> data (calculateBounds exFarView) = Some exDocFar
   \<and> pathPoints (drawRoadLine exFarView exFarRoad)
       = [\<lparr>xc = Num 0, yc = Num 600\<rparr>, \<lparr>xc = Num 10, yc = Num 595\<rparr>,
          \<lparr>xc = Num (10 ^ 13), yc = Num 600\<rparr>]"
proof -
  have d: "data exFarView = Some exDocFar" "roadLine exDocFar = Some [exFarRoad]"
    by (simp_all add: exFarView_def exDocFar_def)
  have keep: "inThresholdOnly (offset exFarView) [exFarRoad]
                = [exFarRoad\<lparr>BoundaryPoints := [pt 0 0, pt 10 5]\<rparr>]"
    by (simp add: inThresholdOnly_def outlierPoint_def exFarRoad_def exFarView_def
        new_MapRenderer_def pt_def REASONABLE_LIMIT_def)
  have b: "boundsOf (calculateBounds exFarView) = (Num 0, Num 10, Num 0, Num 5)"
    by (simp add: boundsOf_def calculateBounds_def boundsRoad_def boundsPoint_def Let_def
        exFarView_def exDocFar_def exFarRoad_def new_MapRenderer_def pt_def
        REASONABLE_LIMIT_def)
  have w: "map (\<lambda>p. worldToCanvas exFarView (xc p) (yc p)) (BoundaryPoints exFarRoad)
             = [\<lparr>xc = Num 0, yc = Num 600\<rparr>, \<lparr>xc = Num 10, yc = Num 595\<rparr>,
                \<lparr>xc = Num (10 ^ 13), yc = Num 600\<rparr>]"
    by (simp add: worldToCanvas_def Let_def exFarView_def exFarRoad_def new_MapRenderer_def
        exCanvas_def pt_def)
  have len: "2 \<le> length (BoundaryPoints exFarRoad)"
    by (simp add: exFarRoad_def)
  from outliers_excluded [OF d, of exFarView] keep b w len d show ?thesis
    by simp
qed

section \<open>C8: nothing to fit\<close>

text \<open>
  C8: when the loaded document has no geometry (no document, no \<^verbatim>\<open>roadLine\<close>, no
  road, no point) or every point of it is an outlier, \<^verbatim>\<open>calculateBounds\<close> leaves the
  empty sentinel (\<^verbatim>\<open>minX = Infinity\<close>, \<^verbatim>\<open>maxX = -Infinity\<close>, and the same for y), and
  \<^verbatim>\<open>fitBounds\<close> then returns the renderer as it is: scale, translateX and translateY
  are the ones from before the two calls.
\<close>

theorem empty_geometry_no_fit:
  assumes "noValidGeometry s"
  shows "boundsOf (calculateBounds s) = (PosInf, NegInf, PosInf, NegInf)
       \<and> fitBounds (calculateBounds s) = calculateBounds s
       \<and> scale (fitBounds (calculateBounds s)) = scale s
       \<and> translateX (fitBounds (calculateBounds s)) = translateX s
       \<and> translateY (fitBounds (calculateBounds s)) = translateY s"
  by (simp add: calculateBounds_noValidGeometry [OF assms] boundsOf_def fitBounds_def)

theorem empty_geometry_no_fit_witness:
  "noValidGeometry (exOffsetView\<lparr>data := Some exDocOnlyFar\<rparr>)
   \<and> minX (calculateBounds (exOffsetView\<lparr>data := Some exDocOnlyFar\<rparr>)) = PosInf
   \<and> scale (fitBounds (calculateBounds (exOffsetView\<lparr>data := Some exDocOnlyFar\<rparr>))) = Num 1
   \<and> translateX (fitBounds (calculateBounds (exOffsetView\<lparr>data := Some exDocOnlyFar\<rparr>))) = Num 0
   \<and> translateY (fitBounds (calculateBounds (exOffsetView\<lparr>data := Some exDocOnlyFar\<rparr>))) = Num 0"
proof -
  have n: "noValidGeometry (exOffsetView\<lparr>data := Some exDocOnlyFar\<rparr>)"
    by (simp add: noValidGeometry_def outlierPoint_def exDocOnlyFar_def exOffsetView_def
        new_MapRenderer_def pt_def REASONABLE_LIMIT_def)
  have v: "scale (exOffsetView\<lparr>data := Some exDocOnlyFar\<rparr>) = Num 1"
    "translateX (exOffsetView\<lparr>data := Some exDocOnlyFar\<rparr>) = Num 0"
    "translateY (exOffsetView\<lparr>data := Some exDocOnlyFar\<rparr>) = Num 0"
    by (simp_all add: exOffsetView_def new_MapRenderer_def)
  from empty_geometry_no_fit [OF n] n v show ?thesis
    by (simp add: boundsOf_def)
qed

section \<open>C9: the reported length\<close>

text \<open>
  C9: when \<^verbatim>\<open>selectRoadAt\<close> returns a result, the road it has selected is the one
  whose length it reports, and for a road of finite coordinates that length is the sum
  of the Euclidean distances between consecutive raw boundary points: neither the
  offset nor any other field of the renderer enters it. In the scenario (offset
  (100, 100), road R1 from (100, 100) to (110, 100), fresh load on an 800 by 600
  canvas) a click on the projection (400, 300) of (105, 100) reports R1 with length 10.
  (Proved on the exact numbers of this model, which leaves rounding out.)
\<close>

theorem reported_length:
  assumes "selectRoadAt s cx cy = Inr (s', Some info)"
  shows "\<exists>sel. selectedRoad s' = Some sel
             \<and> info_length info = calculateRoadLength sel
             \<and> (list_all finitePoint (BoundaryPoints sel)
                  \<longrightarrow> info_length info = Num (pathLength (BoundaryPoints sel)))"
  using assms
  by (auto simp: selectRoadAt_def Let_def calculateRoadLength_finite
           split: option.splits if_splits)

theorem reported_length_witness:
  "selectRoadAt exLoaded (Num 400) (Num 300)
     = Inr (exLoaded\<lparr>selectedRoad := Some exR1\<rparr>, Some \<lparr>info_id = ''R1'', info_length = Num 10\<rparr>)"
proof -
  have fin: "list_all finitePoint (BoundaryPoints exR1)"
    by (simp add: exR1_def pt_def finitePoint_def)
  have len: "pathLength (BoundaryPoints exR1) = 10"
    by (simp add: exR1_def pt_def euclid_def sqrt_100)
  from reported_length [OF exLoaded_pick] fin len
  have "calculateRoadLength exR1 = Num 10" by simp
  with exLoaded_pick show ?thesis by simp
qed

section \<open>C10: the highlight goes by RoadId\<close>



end
